theory Spec2Isabelle
  imports Main
begin

section \<open>The seelog wrapper (seelogWrapper/log.go)\<close>

text \<open>
  The wrapper presents the API of Go's standard \<^verbatim>\<open>log\<close> package on top of the seelog
  engine. The engine itself is outside the wrapper's file: what the wrapper needs of it
  (the leveled calls, the skip depth, the construction and the replacement of a logger)
  is modelled below, the construction and the acceptance of a logger as parameters.
\<close>

subsection \<open>Values of type \<^verbatim>\<open>interface{}\<close> and the functions of \<^verbatim>\<open>fmt\<close> the wrapper calls\<close>

text \<open>The operands a caller passes: strings, integers and booleans.\<close>

datatype gval = GString string | GInt int | GBool bool

fun digits10 :: "nat \<Rightarrow> string" where
  "digits10 n = (if n < 10 then [''0123456789'' ! n]
                 else digits10 (n div 10) @ [''0123456789'' ! (n mod 10)])"

definition Itoa :: "int \<Rightarrow> string" where
  "Itoa i = (if i < 0 then CHR ''-'' # digits10 (nat (- i)) else digits10 (nat i))"

text \<open>The default format (the verb \<^verbatim>\<open>%v\<close>) of an operand, and the name of its type.\<close>

fun format_v :: "gval \<Rightarrow> string" where
  "format_v (GString s) = s"
| "format_v (GInt i) = Itoa i"
| "format_v (GBool b) = (if b then ''true'' else ''false'')"

fun type_name :: "gval \<Rightarrow> string" where
  "type_name (GString s) = ''string''"
| "type_name (GInt i) = ''int''"
| "type_name (GBool b) = ''bool''"

fun join_with :: "string \<Rightarrow> string list \<Rightarrow> string" where
  "join_with sep [] = []"
| "join_with sep [x] = x"
| "join_with sep (x # y # ys) = x @ sep @ join_with sep (y # ys)"

text \<open>
  \<^verbatim>\<open>fmt.Sprintln\<close>: the operands in their default formats, a space between every two of
  them, and a newline appended.
\<close>

definition Sprintln :: "gval list \<Rightarrow> string" where
  "Sprintln v = join_with '' '' (map format_v v) @ [CHR 0x0A]"

text \<open>
  \<^verbatim>\<open>fmt.Sprint\<close>: the operands in their default formats, a space between two operands
  when neither of them is a string, nothing appended.
\<close>

fun is_string :: "gval \<Rightarrow> bool" where
  "is_string (GString s) = True"
| "is_string (GInt i) = False"
| "is_string (GBool b) = False"

fun Sprint :: "gval list \<Rightarrow> string" where
  "Sprint [] = []"
| "Sprint [a] = format_v a"
| "Sprint (a # b # rest) =
     format_v a @ (if is_string a \<or> is_string b then [] else '' '') @ Sprint (b # rest)"

text \<open>
  \<^verbatim>\<open>fmt.Sprintf\<close> on the formats whose directives are a percent sign followed by one of
  \<^verbatim>\<open>v\<close>, \<^verbatim>\<open>s\<close>, \<^verbatim>\<open>d\<close>, \<^verbatim>\<open>t\<close> or \<^verbatim>\<open>%\<close>.
  A verb that does not fit its operand is reported as Go reports it
  (\<^verbatim>\<open>%!d(string=hi)\<close>), so are a missing operand (\<^verbatim>\<open>%!v(MISSING)\<close>), a percent sign that
  ends the format (\<^verbatim>\<open>%!(NOVERB)\<close>) and the operands left over (\<^verbatim>\<open>%!(EXTRA string=x)\<close>).
  Flags, widths, precisions, operand indexes and the other verbs of Go are outside this
  fragment (\<open>plain_directives\<close> says that a format is inside it): on a format outside it
  the function below is not Go's, and no statement below reads the text formatted from
  one. The one format the wrapper itself writes, that of \<^verbatim>\<open>SetLoggerConfig\<close>, is inside.
\<close>

fun plain_directives :: "string \<Rightarrow> bool" where
  "plain_directives [] = True"
| "plain_directives [c] = (c \<noteq> CHR ''%'')"
| "plain_directives (c # d # fs) =
     (if c \<noteq> CHR ''%'' then plain_directives (d # fs)
      else d \<in> set ''vsdt%'' \<and> plain_directives fs)"

fun verb_fits :: "char \<Rightarrow> gval \<Rightarrow> bool" where
  "verb_fits c (GString s) = (c = CHR ''v'' \<or> c = CHR ''s'')"
| "verb_fits c (GInt i) = (c = CHR ''v'' \<or> c = CHR ''d'')"
| "verb_fits c (GBool b) = (c = CHR ''v'' \<or> c = CHR ''t'')"

definition format_verb :: "char \<Rightarrow> gval \<Rightarrow> string" where
  "format_verb c a =
     (if verb_fits c a then format_v a
      else ''%!'' @ [c] @ ''('' @ type_name a @ ''='' @ format_v a @ '')'')"

definition format_extra :: "gval list \<Rightarrow> string" where
  "format_extra args =
     (if args = [] then []
      else ''%!(EXTRA '' @ join_with '', '' (map (\<lambda>a. type_name a @ ''='' @ format_v a) args) @ '')'')"

fun Sprintf :: "string \<Rightarrow> gval list \<Rightarrow> string" where
  "Sprintf [] args = format_extra args"
| "Sprintf [c] args =
     (if c = CHR ''%'' then ''%!(NOVERB)'' @ format_extra args else c # format_extra args)"
| "Sprintf (c # d # fs) args =
     (if c \<noteq> CHR ''%'' then c # Sprintf (d # fs) args
      else if d = CHR ''%'' then CHR ''%'' # Sprintf fs args
      else (case args of
              [] \<Rightarrow> ''%!'' @ [d] @ ''(MISSING)'' @ Sprintf fs []
            | a # rest \<Rightarrow> format_verb d a @ Sprintf fs rest))"

subsection \<open>The engine, as far as the wrapper sees it\<close>

datatype LogLevel = TraceLvl | DebugLvl | InfoLvl | WarnLvl | ErrorLvl | CriticalLvl

text \<open>
  What a leveled call hands to the engine: the operands of \<^verbatim>\<open>log.Info(v...)\<close>, which the
  engine joins itself, or the format and the operands of \<^verbatim>\<open>log.Infof(format, params...)\<close>.
\<close>

datatype message = Plain "gval list" | Formatted string "gval list"

text \<open>
  A stack frame is the name of the function that runs in it. A call stack lists the
  frames from the innermost one outwards.
\<close>

type_synonym frame = string

text \<open>
  One record per leveled call that reaches the engine: its level, its message, the call
  stack at the call (the engine's direct caller first), the skip depth configured at that
  moment and the frame the engine reports as the caller.
\<close>

record log_record =
  rec_level :: LogLevel
  rec_message :: message
  rec_stack :: "frame list"
  rec_depth :: int
  rec_caller :: "frame option"

text \<open>
  The state of the process: the engine's skip depth (\<^verbatim>\<open>staticFuncCallDepth\<close>, read and
  written through \<^verbatim>\<open>GetStaticFuncCallDepth\<close> and \<^verbatim>\<open>SetStaticFuncCallDepth\<close>), the skip
  depth at which the engine reports the function that called it (\<open>defaultDepth\<close>, a
  constant of the engine that nothing writes), the active logger (\<open>None\<close> is Go's nil),
  the wrapper's variable \<^verbatim>\<open>seelogStaticFuncCallDepth\<close>, and the records of the leveled
  calls so far, oldest first.
\<close>

record 'l world =
  staticFuncCallDepth :: int
  defaultDepth :: int
  Current :: "'l option"
  seelogStaticFuncCallDepth :: int
  records :: "log_record list"

definition GetStaticFuncCallDepth :: "'l world \<Rightarrow> int" where
  "GetStaticFuncCallDepth s = staticFuncCallDepth s"

definition SetStaticFuncCallDepth :: "int \<Rightarrow> 'l world \<Rightarrow> 'l world" where
  "SetStaticFuncCallDepth d s = s\<lparr>staticFuncCallDepth := d\<rparr>"

definition frame_at :: "frame list \<Rightarrow> int \<Rightarrow> frame option" where
  "frame_at stk k = (if 0 \<le> k \<and> nat k < length stk then Some (stk ! nat k) else None)"

text \<open>
  Modelled from the spec: the engine's leveled call, absent from the wrapper's file. The
  skip depth is the number of stack frames the engine skips to find the caller's source
  location: at its default depth the engine reports the function that called it, and
  every further unit of depth skips one more frame. \<open>stk\<close> is the call stack at the call,
  the engine's direct caller first.
\<close>

definition engine_log :: "LogLevel \<Rightarrow> message \<Rightarrow> frame list \<Rightarrow> 'l world \<Rightarrow> 'l world" where
  "engine_log lvl m stk s =
     s\<lparr>records := records s @
        [\<lparr>rec_level = lvl, rec_message = m, rec_stack = stk,
          rec_depth = staticFuncCallDepth s,
          rec_caller = frame_at stk (staticFuncCallDepth s - defaultDepth s)\<rparr>]\<rparr>"

text \<open>
  Modelled from the spec: the text the engine makes of a message, absent from the
  wrapper's file. The operands of a leveled call are joined by the default concatenation
  rules, those of \<^verbatim>\<open>fmt.Sprint\<close>; a format and its operands go through \<^verbatim>\<open>fmt.Sprintf\<close>.
\<close>

fun rendered :: "message \<Rightarrow> string" where
  "rendered (Plain v) = Sprint v"
| "rendered (Formatted format params) = Sprintf format params"

definition rec_text :: "log_record \<Rightarrow> string" where
  "rec_text r = rendered (rec_message r)"

definition log_Trace :: "gval list \<Rightarrow> frame list \<Rightarrow> 'l world \<Rightarrow> 'l world" where
  "log_Trace v = engine_log TraceLvl (Plain v)"

definition log_Debug :: "gval list \<Rightarrow> frame list \<Rightarrow> 'l world \<Rightarrow> 'l world" where
  "log_Debug v = engine_log DebugLvl (Plain v)"

definition log_Info :: "gval list \<Rightarrow> frame list \<Rightarrow> 'l world \<Rightarrow> 'l world" where
  "log_Info v = engine_log InfoLvl (Plain v)"

definition log_Warn :: "gval list \<Rightarrow> frame list \<Rightarrow> 'l world \<Rightarrow> 'l world" where
  "log_Warn v = engine_log WarnLvl (Plain v)"

definition log_Error :: "gval list \<Rightarrow> frame list \<Rightarrow> 'l world \<Rightarrow> 'l world" where
  "log_Error v = engine_log ErrorLvl (Plain v)"

definition log_Critical :: "gval list \<Rightarrow> frame list \<Rightarrow> 'l world \<Rightarrow> 'l world" where
  "log_Critical v = engine_log CriticalLvl (Plain v)"

definition log_Tracef :: "string \<Rightarrow> gval list \<Rightarrow> frame list \<Rightarrow> 'l world \<Rightarrow> 'l world" where
  "log_Tracef format params = engine_log TraceLvl (Formatted format params)"

definition log_Debugf :: "string \<Rightarrow> gval list \<Rightarrow> frame list \<Rightarrow> 'l world \<Rightarrow> 'l world" where
  "log_Debugf format params = engine_log DebugLvl (Formatted format params)"

definition log_Infof :: "string \<Rightarrow> gval list \<Rightarrow> frame list \<Rightarrow> 'l world \<Rightarrow> 'l world" where
  "log_Infof format params = engine_log InfoLvl (Formatted format params)"

definition log_Warnf :: "string \<Rightarrow> gval list \<Rightarrow> frame list \<Rightarrow> 'l world \<Rightarrow> 'l world" where
  "log_Warnf format params = engine_log WarnLvl (Formatted format params)"

definition log_Errorf :: "string \<Rightarrow> gval list \<Rightarrow> frame list \<Rightarrow> 'l world \<Rightarrow> 'l world" where
  "log_Errorf format params = engine_log ErrorLvl (Formatted format params)"

definition log_Criticalf :: "string \<Rightarrow> gval list \<Rightarrow> frame list \<Rightarrow> 'l world \<Rightarrow> 'l world" where
  "log_Criticalf format params = engine_log CriticalLvl (Formatted format params)"

text \<open>
  The two functions of the engine that build and install a logger are parameters:
  \<^verbatim>\<open>LoggerFromConfigAsBytes\<close> returns a logger (nil or not) and an error (nil or not), and
  \<open>ReplaceLoggerError\<close> is the error with which \<^verbatim>\<open>ReplaceLogger\<close> answers a logger,
  \<open>None\<close> when it accepts it.
\<close>

record 'l engine =
  LoggerFromConfigAsBytes :: "string \<Rightarrow> 'l option \<times> string option"
  ReplaceLoggerError :: "'l option \<Rightarrow> string option"

text \<open>
  Modelled from the spec: \<^verbatim>\<open>log.ReplaceLogger\<close>, absent from the wrapper's file, is an
  atomic swap of the active logger that can fail; a logger the engine refuses is not
  installed.
\<close>

definition log_ReplaceLogger :: "'l engine \<Rightarrow> 'l option \<Rightarrow> 'l world \<Rightarrow> string option \<times> 'l world" where
  "log_ReplaceLogger eng logger s =
     (case ReplaceLoggerError eng logger of
        None \<Rightarrow> (None, s\<lparr>Current := logger\<rparr>)
      | Some e \<Rightarrow> (Some e, s))"

text \<open>
  Modelled from the spec: the engine rejects malformed configuration. For a text that
  does not parse, the parser returns the nil logger with its error (\<open>nil_on_failed_parse\<close>,
  Go's convention for a result and an error), and \<^verbatim>\<open>ReplaceLogger\<close> refuses the nil logger
  (\<open>refuses_nil\<close>).
\<close>

definition nil_on_failed_parse :: "'l engine \<Rightarrow> string \<Rightarrow> bool" where
  "nil_on_failed_parse eng config =
     (snd (LoggerFromConfigAsBytes eng config) = None
      \<or> fst (LoggerFromConfigAsBytes eng config) = None)"

definition refuses_nil :: "'l engine \<Rightarrow> bool" where
  "refuses_nil eng = (ReplaceLoggerError eng None \<noteq> None)"

subsection \<open>How a Go call ends\<close>

text \<open>
  A call returns, panics with a value, or ends the process through \<^verbatim>\<open>os.Exit\<close>. After a
  panic or an exit the statements that follow do not run. A deferred call runs when its
  function returns and when a panic unwinds through it; \<^verbatim>\<open>os.Exit\<close> ends the process at
  once and runs no deferred call.
\<close>

datatype outcome = Returned | Panicked string | Exited int

text \<open>The message a panic carries.\<close>

fun carried :: "outcome \<Rightarrow> string option" where
  "carried (Panicked m) = Some m"
| "carried Returned = None"
| "carried (Exited c) = None"

type_synonym 'l proc = "'l world \<Rightarrow> outcome \<times> 'l world"

definition call :: "('l world \<Rightarrow> 'l world) \<Rightarrow> 'l proc" where
  "call f s = (Returned, f s)"

definition then_do :: "'l proc \<Rightarrow> 'l proc \<Rightarrow> 'l proc" where
  "then_do p q s = (case p s of (Returned, s') \<Rightarrow> q s' | (Panicked m, s') \<Rightarrow> (Panicked m, s')
                    | (Exited c, s') \<Rightarrow> (Exited c, s'))"

definition go_panic :: "string \<Rightarrow> 'l proc" where
  "go_panic m s = (Panicked m, s)"

definition os_Exit :: "int \<Rightarrow> 'l proc" where
  "os_Exit c s = (Exited c, s)"

definition deferred :: "('l world \<Rightarrow> 'l world) \<Rightarrow> 'l proc \<Rightarrow> 'l proc" where
  "deferred d body s = (case body s of (Returned, s') \<Rightarrow> (Returned, d s')
                        | (Panicked m, s') \<Rightarrow> (Panicked m, d s')
                        | (Exited c, s') \<Rightarrow> (Exited c, s'))"

subsection \<open>The wrapper\<close>

text \<open>
  Every function of the wrapper takes the call stack of its caller (the caller's frame
  first) and pushes its own frame before it calls on.
\<close>

text \<open>The functions that hand the call to the engine function of the same kind.\<close>

definition Tracef :: "string \<Rightarrow> gval list \<Rightarrow> frame list \<Rightarrow> 'l proc" where
  "Tracef format params stk = call (log_Tracef format params (''seelogWrapper.Tracef'' # stk))"

definition Debugf :: "string \<Rightarrow> gval list \<Rightarrow> frame list \<Rightarrow> 'l proc" where
  "Debugf format params stk = call (log_Debugf format params (''seelogWrapper.Debugf'' # stk))"

definition Infof :: "string \<Rightarrow> gval list \<Rightarrow> frame list \<Rightarrow> 'l proc" where
  "Infof format params stk = call (log_Infof format params (''seelogWrapper.Infof'' # stk))"

definition Warnf :: "string \<Rightarrow> gval list \<Rightarrow> frame list \<Rightarrow> 'l proc" where
  "Warnf format params stk = call (log_Warnf format params (''seelogWrapper.Warnf'' # stk))"

definition Errorf :: "string \<Rightarrow> gval list \<Rightarrow> frame list \<Rightarrow> 'l proc" where
  "Errorf format params stk = call (log_Errorf format params (''seelogWrapper.Errorf'' # stk))"

definition Criticalf :: "string \<Rightarrow> gval list \<Rightarrow> frame list \<Rightarrow> 'l proc" where
  "Criticalf format params stk =
     call (log_Criticalf format params (''seelogWrapper.Criticalf'' # stk))"

definition Trace :: "gval list \<Rightarrow> frame list \<Rightarrow> 'l proc" where
  "Trace v stk = call (log_Trace v (''seelogWrapper.Trace'' # stk))"

definition Debug :: "gval list \<Rightarrow> frame list \<Rightarrow> 'l proc" where
  "Debug v stk = call (log_Debug v (''seelogWrapper.Debug'' # stk))"

definition Info :: "gval list \<Rightarrow> frame list \<Rightarrow> 'l proc" where
  "Info v stk = call (log_Info v (''seelogWrapper.Info'' # stk))"

definition Warn :: "gval list \<Rightarrow> frame list \<Rightarrow> 'l proc" where
  "Warn v stk = call (log_Warn v (''seelogWrapper.Warn'' # stk))"

definition Error :: "gval list \<Rightarrow> frame list \<Rightarrow> 'l proc" where
  "Error v stk = call (log_Error v (''seelogWrapper.Error'' # stk))"

text \<open>\<^verbatim>\<open>func Critical(v ...interface{}) { log.Error(v...) }\<close>\<close>

definition Critical :: "gval list \<Rightarrow> frame list \<Rightarrow> 'l proc" where
  "Critical v stk = call (log_Error v (''seelogWrapper.Critical'' # stk))"

text \<open>
  The functions of Go's \<^verbatim>\<open>log\<close>. Each sets the skip depth, defers the call that sets it
  to \<^verbatim>\<open>seelogStaticFuncCallDepth\<close> (the operand of a deferred call is evaluated at the
  \<^verbatim>\<open>defer\<close> statement), and runs its body.
\<close>

definition Fatal :: "gval list \<Rightarrow> frame list \<Rightarrow> 'l proc" where
  "Fatal v stk s =
     (let here = ''seelogWrapper.Fatal'' # stk;
          s1 = SetStaticFuncCallDepth (seelogStaticFuncCallDepth s + 2) s
      in deferred (SetStaticFuncCallDepth (seelogStaticFuncCallDepth s1))
           (then_do (call (log_Error v here)) (os_Exit 1)) s1)"

definition panicMessage :: string where
  "panicMessage = ''Panic in seelogWrapper, check last critical log for reason.!''"

definition Panic :: "gval list \<Rightarrow> frame list \<Rightarrow> 'l proc" where
  "Panic v stk s =
     (let here = ''seelogWrapper.Panic'' # stk;
          s1 = SetStaticFuncCallDepth (seelogStaticFuncCallDepth s + 2) s
      in deferred (SetStaticFuncCallDepth (seelogStaticFuncCallDepth s1))
           (then_do (call (log_Critical v here)) (go_panic panicMessage)) s1)"

definition Print :: "gval list \<Rightarrow> frame list \<Rightarrow> 'l proc" where
  "Print v stk s =
     (let here = ''seelogWrapper.Print'' # stk;
          s1 = SetStaticFuncCallDepth (seelogStaticFuncCallDepth s + 2) s
      in deferred (SetStaticFuncCallDepth (seelogStaticFuncCallDepth s1))
           (call (log_Info v here)) s1)"

definition Println :: "gval list \<Rightarrow> frame list \<Rightarrow> 'l proc" where
  "Println v stk s =
     (let here = ''seelogWrapper.Println'' # stk;
          s1 = SetStaticFuncCallDepth (seelogStaticFuncCallDepth s + 2) s
      in deferred (SetStaticFuncCallDepth (seelogStaticFuncCallDepth s1))
           (call (log_Info [GString (Sprintln v)] here)) s1)"

definition Fatalf :: "string \<Rightarrow> gval list \<Rightarrow> frame list \<Rightarrow> 'l proc" where
  "Fatalf format v stk s =
     (let here = ''seelogWrapper.Fatalf'' # stk;
          s1 = SetStaticFuncCallDepth (seelogStaticFuncCallDepth s + 2) s
      in deferred (SetStaticFuncCallDepth (seelogStaticFuncCallDepth s1))
           (Fatal [GString (Sprintf format v)] here) s1)"

definition Panicf :: "string \<Rightarrow> gval list \<Rightarrow> frame list \<Rightarrow> 'l proc" where
  "Panicf format v stk s =
     (let here = ''seelogWrapper.Panicf'' # stk;
          s1 = SetStaticFuncCallDepth (seelogStaticFuncCallDepth s + 2) s
      in deferred (SetStaticFuncCallDepth (seelogStaticFuncCallDepth s1))
           (Panic [GString (Sprintf format v)] here) s1)"

definition Printf :: "string \<Rightarrow> gval list \<Rightarrow> frame list \<Rightarrow> 'l proc" where
  "Printf format v stk s =
     (let here = ''seelogWrapper.Printf'' # stk;
          s1 = SetStaticFuncCallDepth (seelogStaticFuncCallDepth s + 2) s
      in deferred (SetStaticFuncCallDepth (seelogStaticFuncCallDepth s1))
           (Print [GString (Sprintf format v)] here) s1)"

text \<open>
  \<^verbatim>\<open>SetLoggerConfig\<close> drops the error of \<^verbatim>\<open>LoggerFromConfigAsBytes\<close> (\<^verbatim>\<open>logger, _ :=\<close>) and
  panics through \<^verbatim>\<open>Panicf\<close> when \<^verbatim>\<open>ReplaceLogger\<close> returns an error.
\<close>

definition SetLoggerConfig :: "'l engine \<Rightarrow> string \<Rightarrow> frame list \<Rightarrow> 'l proc" where
  "SetLoggerConfig eng config stk s =
     (let here = ''seelogWrapper.SetLoggerConfig'' # stk;
          logger = fst (LoggerFromConfigAsBytes eng config);
          (err, s1) = log_ReplaceLogger eng logger s
      in if err \<noteq> None
         then Panicf ''Can not replace default logger with new config: %v'' [GString config] here s1
         else (Returned, s1))"

text \<open>The configuration that \<^verbatim>\<open>init\<close> installs, a raw string literal of eight lines.\<close>

definition defaultConfig :: string where
  \<open>defaultConfig =
     ''<seelog type="sync">'' @ [CHR 0x0A] @
     ''          <outputs formatid="ccmp">'' @ [CHR 0x0A] @
     ''            <console />'' @ [CHR 0x0A] @
     ''          </outputs>'' @ [CHR 0x0A] @
     ''          <formats>'' @ [CHR 0x0A] @
     ''            <format id="ccmp" format="%Ns [%LEVEL] (%File:%Func) %Msg"/>'' @ [CHR 0x0A] @
     ''          </formats>'' @ [CHR 0x0A] @
     ''        </seelog>''\<close>

definition init :: "'l engine \<Rightarrow> 'l proc" where
  "init eng s =
     (let s1 = s\<lparr>seelogStaticFuncCallDepth := GetStaticFuncCallDepth s\<rparr>;
          s2 = SetStaticFuncCallDepth (seelogStaticFuncCallDepth s1 + 1) s1
      in SetLoggerConfig eng defaultConfig [''seelogWrapper.init''] s2)"

text \<open>
  The process before \<^verbatim>\<open>init\<close>: the engine at its default skip depth \<open>d0\<close> with its own
  default logger active, the wrapper's variable at Go's zero value, nothing logged.
\<close>

definition fresh :: "int \<Rightarrow> 'l option \<Rightarrow> 'l world" where
  "fresh d0 lg = \<lparr>staticFuncCallDepth = d0, defaultDepth = d0, Current = lg,
                  seelogStaticFuncCallDepth = 0, records = []\<rparr>"

subsection \<open>The level table\<close>

text \<open>
  The levels the wrapper exposes, and the table of the file's header comment
  (Print to Info, Fatal to Error, Panic to Critical), the levels of seelog mapped to
  themselves.
\<close>

datatype facade_level = FTrace | FDebug | FInfo | FWarn | FError | FCritical
  | FPrint | FFatal | FPanic

fun LevelMapping :: "facade_level \<Rightarrow> LogLevel" where
  "LevelMapping FTrace = TraceLvl"
| "LevelMapping FDebug = DebugLvl"
| "LevelMapping FInfo = InfoLvl"
| "LevelMapping FWarn = WarnLvl"
| "LevelMapping FError = ErrorLvl"
| "LevelMapping FCritical = CriticalLvl"
| "LevelMapping FPrint = InfoLvl"
| "LevelMapping FFatal = ErrorLvl"
| "LevelMapping FPanic = CriticalLvl"

text \<open>The wrapper's function of each level.\<close>

fun facade_call :: "facade_level \<Rightarrow> gval list \<Rightarrow> frame list \<Rightarrow> 'l proc" where
  "facade_call FTrace = Trace"
| "facade_call FDebug = Debug"
| "facade_call FInfo = Info"
| "facade_call FWarn = Warn"
| "facade_call FError = Error"
| "facade_call FCritical = Critical"
| "facade_call FPrint = Print"
| "facade_call FFatal = Fatal"
| "facade_call FPanic = Panic"

text \<open>
  The entry points that format and then call another function of the wrapper, and the
  frames of the wrapper that then lie between the caller and the engine, innermost first.
\<close>

datatype formatted_entry = EFatalf | EPanicf | EPrintf

fun entry_call :: "formatted_entry \<Rightarrow> string \<Rightarrow> gval list \<Rightarrow> frame list \<Rightarrow> 'l proc" where
  "entry_call EFatalf = Fatalf"
| "entry_call EPanicf = Panicf"
| "entry_call EPrintf = Printf"

fun interposed :: "formatted_entry \<Rightarrow> frame list" where
  "interposed EFatalf = [''seelogWrapper.Fatal'', ''seelogWrapper.Fatalf'']"
| "interposed EPanicf = [''seelogWrapper.Panic'', ''seelogWrapper.Panicf'']"
| "interposed EPrintf = [''seelogWrapper.Print'', ''seelogWrapper.Printf'']"

text \<open>The records a call adds to the trace.\<close>

definition emitted :: "'l proc \<Rightarrow> 'l world \<Rightarrow> log_record list" where
  "emitted p s = drop (length (records s)) (records (snd (p s)))"

text \<open>An exit of the process with a status other than zero.\<close>

fun exits_nonzero :: "outcome \<Rightarrow> bool" where
  "exits_nonzero (Exited c) = (c \<noteq> 0)"
| "exits_nonzero Returned = False"
| "exits_nonzero (Panicked m) = False"


subsection \<open>Two engines to run the wrapper on\<close>

text \<open>
  A logger is named by the text it was built from. \<open>parse_seelog\<close> stands in for the
  engine's parser, only to run the wrapper on: it takes a text that starts with
  \<^verbatim>\<open><seelog\<close> and answers any other text with the nil logger and an error. No theorem
  with a hypothesis on the engine depends on it; it appears in the closed examples only.
\<close>

definition parse_seelog :: "string \<Rightarrow> string option \<times> string option" where
  "parse_seelog c =
     (if take 7 c = ''<seelog'' then (Some c, None)
      else (None, Some ''not a seelog configuration''))"

text \<open>\<open>engine_strict\<close> refuses to install the nil logger, as the engine does.\<close>

definition engine_strict :: "string engine" where
  "engine_strict =
     \<lparr>LoggerFromConfigAsBytes = parse_seelog,
      ReplaceLoggerError =
        (\<lambda>lg. case lg of None \<Rightarrow> Some ''logger can not be nil'' | Some l \<Rightarrow> None)\<rparr>"

text \<open>
  \<open>engine_lenient\<close> installs whatever logger it is given, the nil logger too. The engine
  does not behave so: this one only shows that the condition under which
  \<^verbatim>\<open>SetLoggerConfig\<close> drops a failed parse can be met by some \<^verbatim>\<open>ReplaceLogger\<close>.
\<close>

definition engine_lenient :: "string engine" where
  "engine_lenient =
     \<lparr>LoggerFromConfigAsBytes = parse_seelog, ReplaceLoggerError = (\<lambda>lg. None)\<rparr>"

text \<open>The process after \<^verbatim>\<open>init\<close> on an engine whose default skip depth is 3.\<close>

definition started :: "string engine \<Rightarrow> string world" where
  "started eng = snd (init eng (fresh 3 (Some ''seelog.Default'')))"

section \<open>What each function of the wrapper does\<close>

lemmas run_defs = call_def then_do_def go_panic_def os_Exit_def deferred_def
  SetStaticFuncCallDepth_def GetStaticFuncCallDepth_def engine_log_def
  log_Trace_def log_Debug_def log_Info_def log_Warn_def log_Error_def log_Critical_def

lemma Print_eq:
  "Print v stk s =
     (Returned,
      s\<lparr>staticFuncCallDepth := seelogStaticFuncCallDepth s,
        records := records s @
          [\<lparr>rec_level = InfoLvl, rec_message = Plain v,
            rec_stack = ''seelogWrapper.Print'' # stk,
            rec_depth = seelogStaticFuncCallDepth s + 2,
            rec_caller = frame_at (''seelogWrapper.Print'' # stk)
                           (seelogStaticFuncCallDepth s + 2 - defaultDepth s)\<rparr>]\<rparr>)"
  by (simp add: Print_def Let_def run_defs)

lemma Println_eq:
  "Println v stk s =
     (Returned,
      s\<lparr>staticFuncCallDepth := seelogStaticFuncCallDepth s,
        records := records s @
          [\<lparr>rec_level = InfoLvl, rec_message = Plain [GString (Sprintln v)],
            rec_stack = ''seelogWrapper.Println'' # stk,
            rec_depth = seelogStaticFuncCallDepth s + 2,
            rec_caller = frame_at (''seelogWrapper.Println'' # stk)
                           (seelogStaticFuncCallDepth s + 2 - defaultDepth s)\<rparr>]\<rparr>)"
  by (simp add: Println_def Let_def run_defs)

text \<open>\<^verbatim>\<open>Fatal\<close> leaves the depth where it set it: the process ends before the deferred call.\<close>

lemma Fatal_eq:
  "Fatal v stk s =
     (Exited 1,
      s\<lparr>staticFuncCallDepth := seelogStaticFuncCallDepth s + 2,
        records := records s @
          [\<lparr>rec_level = ErrorLvl, rec_message = Plain v,
            rec_stack = ''seelogWrapper.Fatal'' # stk,
            rec_depth = seelogStaticFuncCallDepth s + 2,
            rec_caller = frame_at (''seelogWrapper.Fatal'' # stk)
                           (seelogStaticFuncCallDepth s + 2 - defaultDepth s)\<rparr>]\<rparr>)"
  by (simp add: Fatal_def Let_def run_defs)

lemma Panic_eq:
  "Panic v stk s =
     (Panicked panicMessage,
      s\<lparr>staticFuncCallDepth := seelogStaticFuncCallDepth s,
        records := records s @
          [\<lparr>rec_level = CriticalLvl, rec_message = Plain v,
            rec_stack = ''seelogWrapper.Panic'' # stk,
            rec_depth = seelogStaticFuncCallDepth s + 2,
            rec_caller = frame_at (''seelogWrapper.Panic'' # stk)
                           (seelogStaticFuncCallDepth s + 2 - defaultDepth s)\<rparr>]\<rparr>)"
  by (simp add: Panic_def Let_def run_defs)

lemma Printf_eq:
  "Printf format v stk s =
     (Returned,
      s\<lparr>staticFuncCallDepth := seelogStaticFuncCallDepth s,
        records := records s @
          [\<lparr>rec_level = InfoLvl, rec_message = Plain [GString (Sprintf format v)],
            rec_stack = ''seelogWrapper.Print'' # ''seelogWrapper.Printf'' # stk,
            rec_depth = seelogStaticFuncCallDepth s + 2,
            rec_caller = frame_at (''seelogWrapper.Print'' # ''seelogWrapper.Printf'' # stk)
                           (seelogStaticFuncCallDepth s + 2 - defaultDepth s)\<rparr>]\<rparr>)"
  by (simp add: Printf_def Print_eq Let_def deferred_def SetStaticFuncCallDepth_def)

lemma Fatalf_eq:
  "Fatalf format v stk s =
     (Exited 1,
      s\<lparr>staticFuncCallDepth := seelogStaticFuncCallDepth s + 2,
        records := records s @
          [\<lparr>rec_level = ErrorLvl, rec_message = Plain [GString (Sprintf format v)],
            rec_stack = ''seelogWrapper.Fatal'' # ''seelogWrapper.Fatalf'' # stk,
            rec_depth = seelogStaticFuncCallDepth s + 2,
            rec_caller = frame_at (''seelogWrapper.Fatal'' # ''seelogWrapper.Fatalf'' # stk)
                           (seelogStaticFuncCallDepth s + 2 - defaultDepth s)\<rparr>]\<rparr>)"
  by (simp add: Fatalf_def Fatal_eq Let_def deferred_def SetStaticFuncCallDepth_def)

lemma Panicf_eq:
  "Panicf format v stk s =
     (Panicked panicMessage,
      s\<lparr>staticFuncCallDepth := seelogStaticFuncCallDepth s,
        records := records s @
          [\<lparr>rec_level = CriticalLvl, rec_message = Plain [GString (Sprintf format v)],
            rec_stack = ''seelogWrapper.Panic'' # ''seelogWrapper.Panicf'' # stk,
            rec_depth = seelogStaticFuncCallDepth s + 2,
            rec_caller = frame_at (''seelogWrapper.Panic'' # ''seelogWrapper.Panicf'' # stk)
                           (seelogStaticFuncCallDepth s + 2 - defaultDepth s)\<rparr>]\<rparr>)"
  by (simp add: Panicf_def Panic_eq Let_def deferred_def SetStaticFuncCallDepth_def)

lemma SetLoggerConfig_accepted:
  "ReplaceLoggerError eng (fst (LoggerFromConfigAsBytes eng config)) = None \<Longrightarrow>
   SetLoggerConfig eng config stk s =
     (Returned, s\<lparr>Current := fst (LoggerFromConfigAsBytes eng config)\<rparr>)"
  by (simp add: SetLoggerConfig_def log_ReplaceLogger_def Let_def)

lemma SetLoggerConfig_refused:
  "ReplaceLoggerError eng (fst (LoggerFromConfigAsBytes eng config)) = Some e \<Longrightarrow>
   SetLoggerConfig eng config stk s =
     Panicf ''Can not replace default logger with new config: %v'' [GString config]
       (''seelogWrapper.SetLoggerConfig'' # stk) s"
  by (simp add: SetLoggerConfig_def log_ReplaceLogger_def Let_def)

lemma init_eq:
  "init eng s =
     SetLoggerConfig eng defaultConfig [''seelogWrapper.init'']
       (s\<lparr>seelogStaticFuncCallDepth := staticFuncCallDepth s,
          staticFuncCallDepth := staticFuncCallDepth s + 1\<rparr>)"
  by (simp add: init_def Let_def SetStaticFuncCallDepth_def GetStaticFuncCallDepth_def)


text \<open>
  On a process that starts at the engine's default depth, \<^verbatim>\<open>init\<close> leaves the wrapper's
  variable equal to that default, whether the engine takes the default configuration or
  not.
\<close>

lemma baseline_after_init:
  "seelogStaticFuncCallDepth (snd (init eng (fresh d0 lg)))
     = defaultDepth (snd (init eng (fresh d0 lg)))"
proof (cases "ReplaceLoggerError eng (fst (LoggerFromConfigAsBytes eng defaultConfig))")
  case None
  then show ?thesis by (simp add: init_eq SetLoggerConfig_accepted fresh_def)
next
  case (Some e)
  then show ?thesis by (simp add: init_eq SetLoggerConfig_refused Panicf_eq fresh_def)
qed

subsection \<open>The two engines\<close>

lemma take7_defaultConfig: "take 7 defaultConfig = ''<seelog''"
  by (simp add: defaultConfig_def)

lemma parse_seelog_defaultConfig: "parse_seelog defaultConfig = (Some defaultConfig, None)"
  by (simp add: parse_seelog_def take7_defaultConfig)

lemma strict_fields:
  "LoggerFromConfigAsBytes engine_strict = parse_seelog"
  "ReplaceLoggerError engine_strict None = Some ''logger can not be nil''"
  "ReplaceLoggerError engine_strict (Some l) = None"
  by (simp_all add: engine_strict_def)

lemma lenient_fields:
  "LoggerFromConfigAsBytes engine_lenient = parse_seelog"
  "ReplaceLoggerError engine_lenient lg = None"
  by (simp_all add: engine_lenient_def)

lemma init_strict_returns:
  "fst (init engine_strict (fresh 3 (Some ''seelog.Default''))) = Returned"
  by (simp add: init_eq SetLoggerConfig_accepted strict_fields parse_seelog_defaultConfig)

lemma started_strict:
  "started engine_strict =
     \<lparr>staticFuncCallDepth = 4, defaultDepth = 3, Current = Some defaultConfig,
      seelogStaticFuncCallDepth = 3, records = []\<rparr>"
  by (simp add: started_def init_eq SetLoggerConfig_accepted strict_fields
      parse_seelog_defaultConfig fresh_def)

section \<open>The level table\<close>

text \<open>
  C1. A call through the wrapper at level L reaches the engine at the level the table
  gives for L. This fails for Critical: \<^verbatim>\<open>Critical\<close> calls \<^verbatim>\<open>log.Error\<close>, so for every
  argument list, call stack and state the one record of the call is at the engine's Error
  level, while the table maps Critical to Critical.
\<close>

theorem Critical_reaches_engine_at_Error:
  "map rec_level (emitted (facade_call FCritical v stk) s) = [ErrorLvl]
   \<and> map rec_message (emitted (facade_call FCritical v stk) s) = [Plain v]
   \<and> LevelMapping FCritical = CriticalLvl"
  by (simp add: emitted_def Critical_def run_defs)

text \<open>Every other level follows the table.\<close>

lemma other_levels_follow_LevelMapping:
  "L \<noteq> FCritical \<Longrightarrow> map rec_level (emitted (facade_call L v stk) s) = [LevelMapping L]"
  by (cases L) (simp_all add: emitted_def Trace_def Debug_def Info_def Warn_def Error_def
      Print_eq Fatal_eq Panic_eq run_defs)

text \<open>\<^verbatim>\<open>Criticalf\<close>, unlike \<^verbatim>\<open>Critical\<close>, reaches the engine at its Critical level.\<close>

lemma Criticalf_level:
  "map rec_level (emitted (Criticalf format params stk) s) = [CriticalLvl]"
  by (simp add: emitted_def Criticalf_def log_Criticalf_def call_def engine_log_def)

section \<open>The skip depth\<close>

text \<open>
  C2. For \<^verbatim>\<open>Fatalf\<close>, \<^verbatim>\<open>Panicf\<close> and \<^verbatim>\<open>Printf\<close>, called from \<open>caller\<close>: the call reaches the
  engine once, with the two frames of the wrapper between the engine and the caller
  (\<^verbatim>\<open>Fatal\<close> and \<^verbatim>\<open>Fatalf\<close>, and so on); the skip depth configured during that engine call
  is the baseline \<^verbatim>\<open>seelogStaticFuncCallDepth\<close> plus the number of these frames; and, the
  baseline being the engine's default depth (as \<^verbatim>\<open>init\<close> captured it), the frame the engine
  reports is the caller's.
\<close>

theorem formatted_entry_points_skip_to_caller:
  assumes "seelogStaticFuncCallDepth s = defaultDepth s"
  shows "map rec_stack (emitted (entry_call e format v (caller # outer)) s)
           = [interposed e @ caller # outer]
       \<and> map rec_depth (emitted (entry_call e format v (caller # outer)) s)
           = [seelogStaticFuncCallDepth s + int (length (interposed e))]
       \<and> map rec_caller (emitted (entry_call e format v (caller # outer)) s) = [Some caller]"
  using assms by (cases e) (simp_all add: emitted_def Fatalf_eq Panicf_eq Printf_eq frame_at_def)

text \<open>
  The hypothesis holds after \<^verbatim>\<open>init\<close>: \<^verbatim>\<open>Fatalf\<close>, called from \<^verbatim>\<open>main.work\<close>, is reported at
  \<^verbatim>\<open>main.work\<close>.
\<close>

theorem formatted_entry_points_skip_to_caller_witness:
  "seelogStaticFuncCallDepth (started engine_strict) = defaultDepth (started engine_strict)
   \<and> map rec_stack (emitted (Fatalf ''disk %v is full'' [GString ''sda'']
          [''main.work'', ''main.main'']) (started engine_strict))
        = [[''seelogWrapper.Fatal'', ''seelogWrapper.Fatalf'', ''main.work'', ''main.main'']]
   \<and> map rec_depth (emitted (Fatalf ''disk %v is full'' [GString ''sda'']
          [''main.work'', ''main.main'']) (started engine_strict)) = [5]
   \<and> map rec_caller (emitted (Fatalf ''disk %v is full'' [GString ''sda'']
          [''main.work'', ''main.main'']) (started engine_strict)) = [Some ''main.work'']"
proof -
  have base: "seelogStaticFuncCallDepth (started engine_strict)
      = defaultDepth (started engine_strict)"
    by (simp add: started_strict)
  show ?thesis
    using base formatted_entry_points_skip_to_caller [OF base, of EFatalf "''disk %v is full''"
        "[GString ''sda'']" "''main.work''" "[''main.main'']"]
    by (simp add: started_strict)
qed

text \<open>
  Called directly, \<^verbatim>\<open>Print\<close>, \<^verbatim>\<open>Println\<close>, \<^verbatim>\<open>Panic\<close> and \<^verbatim>\<open>Fatal\<close> set the same depth, two above
  the baseline, with one frame of the wrapper between the engine and the caller: the
  engine skips the caller too and reports the function that called the caller.
\<close>

lemma direct_entry_points_skip_past_caller:
  assumes "seelogStaticFuncCallDepth s = defaultDepth s"
  shows "map rec_caller (emitted (Print v (caller # parent # outer)) s) = [Some parent]"
    and "map rec_caller (emitted (Println v (caller # parent # outer)) s) = [Some parent]"
    and "map rec_caller (emitted (Panic v (caller # parent # outer)) s) = [Some parent]"
    and "map rec_caller (emitted (Fatal v (caller # parent # outer)) s) = [Some parent]"
  using assms by (simp_all add: emitted_def Print_eq Println_eq Panic_eq Fatal_eq frame_at_def)

text \<open>
  The functions that return or panic leave the skip depth at \<^verbatim>\<open>seelogStaticFuncCallDepth\<close>,
  the depth \<^verbatim>\<open>init\<close> read, not at the depth \<^verbatim>\<open>init\<close> set.
\<close>

lemma restored_depth_is_captured_default:
  "staticFuncCallDepth (snd (Print v stk s)) = seelogStaticFuncCallDepth s"
  "staticFuncCallDepth (snd (Println v stk s)) = seelogStaticFuncCallDepth s"
  "staticFuncCallDepth (snd (Printf format v stk s)) = seelogStaticFuncCallDepth s"
  "staticFuncCallDepth (snd (Panic v stk s)) = seelogStaticFuncCallDepth s"
  "staticFuncCallDepth (snd (Panicf format v stk s)) = seelogStaticFuncCallDepth s"
  by (simp_all add: Print_eq Println_eq Printf_eq Panic_eq Panicf_eq)

text \<open>
  C3. After a call that changes the skip depth, the depth is what it was before the call.
  This fails on the process as \<^verbatim>\<open>init\<close> leaves it: \<^verbatim>\<open>init\<close> returns with the depth at 4
  (the engine's default 3 plus one), and after \<^verbatim>\<open>Print\<close>, which returns, and after
  \<^verbatim>\<open>Panic\<close>, which panics, the depth is 3. A call of \<^verbatim>\<open>Info\<close> from \<^verbatim>\<open>main.work\<close> is reported
  at \<^verbatim>\<open>main.work\<close> before the \<^verbatim>\<open>Print\<close> and at the wrapper's own \<^verbatim>\<open>Info\<close> after it.
\<close>

theorem Print_after_init_leaves_depth_one_short:
  "fst (init engine_strict (fresh 3 (Some ''seelog.Default''))) = Returned
   \<and> staticFuncCallDepth (started engine_strict) = 4
   \<and> fst (Print [GString ''x''] [''main.work'', ''main.main''] (started engine_strict)) = Returned
   \<and> staticFuncCallDepth
        (snd (Print [GString ''x''] [''main.work'', ''main.main''] (started engine_strict))) = 3
   \<and> fst (Panic [GString ''x''] [''main.work'', ''main.main''] (started engine_strict))
        = Panicked panicMessage
   \<and> staticFuncCallDepth
        (snd (Panic [GString ''x''] [''main.work'', ''main.main''] (started engine_strict))) = 3
   \<and> map rec_caller (emitted (Info [GString ''y''] [''main.work'', ''main.main''])
        (started engine_strict)) = [Some ''main.work'']
   \<and> map rec_caller (emitted (Info [GString ''y''] [''main.work'', ''main.main''])
        (snd (Print [GString ''x''] [''main.work'', ''main.main''] (started engine_strict))))
        = [Some ''seelogWrapper.Info'']"
  by (simp add: init_strict_returns started_strict Print_eq Panic_eq emitted_def Info_def
      call_def log_Info_def engine_log_def frame_at_def)

section \<open>Replacing the logger\<close>

text \<open>The message \<^verbatim>\<open>SetLoggerConfig\<close> formats is its fixed prefix followed by the text.\<close>

lemma config_format_plain:
  "plain_directives ''Can not replace default logger with new config: %v''"
  by simp

lemma Sprintf_config:
  "Sprintf ''Can not replace default logger with new config: %v'' [GString config]
     = ''Can not replace default logger with new config: '' @ config"
  by (simp add: format_verb_def format_extra_def)

text \<open>
  What \<^verbatim>\<open>SetLoggerConfig\<close> does when \<^verbatim>\<open>ReplaceLogger\<close> refuses the logger: one record at the
  Critical level, then the panic of \<^verbatim>\<open>Panic\<close>; nothing of the state changes but the trace
  and the skip depth.
\<close>

lemma SetLoggerConfig_refused_eq:
  assumes "ReplaceLoggerError eng (fst (LoggerFromConfigAsBytes eng config)) \<noteq> None"
  shows "SetLoggerConfig eng config stk s =
     (Panicked panicMessage,
      s\<lparr>staticFuncCallDepth := seelogStaticFuncCallDepth s,
        records := records s @
          [\<lparr>rec_level = CriticalLvl,
            rec_message = Plain [GString
              (''Can not replace default logger with new config: '' @ config)],
            rec_stack = ''seelogWrapper.Panic'' # ''seelogWrapper.Panicf''
                          # ''seelogWrapper.SetLoggerConfig'' # stk,
            rec_depth = seelogStaticFuncCallDepth s + 2,
            rec_caller = frame_at (''seelogWrapper.Panic'' # ''seelogWrapper.Panicf''
                                     # ''seelogWrapper.SetLoggerConfig'' # stk)
                           (seelogStaticFuncCallDepth s + 2 - defaultDepth s)\<rparr>]\<rparr>)"
proof -
  from assms obtain e
    where "ReplaceLoggerError eng (fst (LoggerFromConfigAsBytes eng config)) = Some e"
    by blast
  then have "SetLoggerConfig eng config stk s =
      Panicf ''Can not replace default logger with new config: %v'' [GString config]
        (''seelogWrapper.SetLoggerConfig'' # stk) s"
    by (rule SetLoggerConfig_refused)
  then show ?thesis
    by (simp only: Panicf_eq Sprintf_config)
qed

text \<open>
  A text that does not parse, or whose logger the engine rejects, is a text whose logger
  \<^verbatim>\<open>ReplaceLogger\<close> refuses, on an engine that answers a failed parse with the nil logger
  and refuses the nil logger.
\<close>

lemma failure_is_refused:
  assumes "refuses_nil eng" and "nil_on_failed_parse eng config"
    and "snd (LoggerFromConfigAsBytes eng config) \<noteq> None
         \<or> ReplaceLoggerError eng (fst (LoggerFromConfigAsBytes eng config)) \<noteq> None"
  shows "ReplaceLoggerError eng (fst (LoggerFromConfigAsBytes eng config)) \<noteq> None"
proof (cases "snd (LoggerFromConfigAsBytes eng config) = None")
  case True
  with assms(3) show ?thesis by simp
next
  case False
  with assms(2) have "fst (LoggerFromConfigAsBytes eng config) = None"
    by (simp add: nil_on_failed_parse_def)
  with assms(1) show ?thesis by (simp add: refuses_nil_def)
qed

text \<open>
  C4. On an engine that rejects malformed configuration (a failed parse yields the nil
  logger, and \<^verbatim>\<open>ReplaceLogger\<close> refuses the nil logger): for every configuration text for
  which parsing fails or for which \<^verbatim>\<open>ReplaceLogger\<close> returns an error, \<^verbatim>\<open>SetLoggerConfig\<close>
  does not return but panics with the value \<^verbatim>\<open>Panic\<close> panics with, after exactly one record,
  at the Critical level, whose text is
  \<^verbatim>\<open>Can not replace default logger with new config: \<close> followed by the configuration text.
\<close>

theorem SetLoggerConfig_failure_raises_with_config:
  assumes "refuses_nil eng" and "nil_on_failed_parse eng config"
    and "snd (LoggerFromConfigAsBytes eng config) \<noteq> None
         \<or> ReplaceLoggerError eng (fst (LoggerFromConfigAsBytes eng config)) \<noteq> None"
  shows "fst (SetLoggerConfig eng config stk s) \<noteq> Returned
       \<and> fst (SetLoggerConfig eng config stk s) = Panicked panicMessage
       \<and> fst (SetLoggerConfig eng config stk s) = fst (Panic v stk' s')
       \<and> map rec_level (emitted (SetLoggerConfig eng config stk) s) = [CriticalLvl]
       \<and> map rec_text (emitted (SetLoggerConfig eng config stk) s)
           = [''Can not replace default logger with new config: '' @ config]"
proof -
  have refused: "ReplaceLoggerError eng (fst (LoggerFromConfigAsBytes eng config)) \<noteq> None"
    using assms by (rule failure_is_refused)
  have signal: "fst (Panic v stk' s') = Panicked panicMessage"
    by (simp add: Panic_eq)
  show ?thesis
    using signal
    by (simp add: SetLoggerConfig_refused_eq [OF refused] emitted_def rec_text_def)
qed

text \<open>
  On the strict engine the text \<^verbatim>\<open>not a configuration\<close> does not parse, and
  \<^verbatim>\<open>SetLoggerConfig\<close> panics with the text in its record.
\<close>

theorem SetLoggerConfig_failure_raises_with_config_witness:
  "refuses_nil engine_strict
   \<and> nil_on_failed_parse engine_strict ''not a configuration''
   \<and> snd (LoggerFromConfigAsBytes engine_strict ''not a configuration'')
       = Some ''not a seelog configuration''
   \<and> fst (SetLoggerConfig engine_strict ''not a configuration'' [''main.main'']
        (started engine_strict)) = Panicked panicMessage
   \<and> map rec_level (emitted (SetLoggerConfig engine_strict ''not a configuration''
        [''main.main'']) (started engine_strict)) = [CriticalLvl]
   \<and> map rec_text (emitted (SetLoggerConfig engine_strict ''not a configuration''
        [''main.main'']) (started engine_strict))
       = [''Can not replace default logger with new config: not a configuration'']"
proof -
  have nil: "refuses_nil engine_strict"
    by (simp add: refuses_nil_def strict_fields)
  have parse: "nil_on_failed_parse engine_strict ''not a configuration''"
    by (simp add: nil_on_failed_parse_def strict_fields parse_seelog_def)
  have failed: "snd (LoggerFromConfigAsBytes engine_strict ''not a configuration'')
      = Some ''not a seelog configuration''"
    by (simp add: strict_fields parse_seelog_def)
  then have failure: "snd (LoggerFromConfigAsBytes engine_strict ''not a configuration'') \<noteq> None
      \<or> ReplaceLoggerError engine_strict
           (fst (LoggerFromConfigAsBytes engine_strict ''not a configuration'')) \<noteq> None"
    by simp
  show ?thesis
    using nil parse failed
      SetLoggerConfig_failure_raises_with_config [OF nil parse failure,
        of "[''main.main'']" "started engine_strict" "[]" "[]" "started engine_strict"]
    by simp
qed

text \<open>
  C5. On an engine that rejects malformed configuration (a failed parse yields the nil
  logger, and \<^verbatim>\<open>ReplaceLogger\<close> refuses the nil logger): for every configuration text that
  does not parse, \<^verbatim>\<open>SetLoggerConfig\<close> panics with the value of \<^verbatim>\<open>Panic\<close>, and the logger that
  was active before the call is the active one after it; the records logged before the
  call are still there, and a leveled call after it reaches the engine as before.
\<close>

theorem SetLoggerConfig_invalid_document_keeps_logger:
  assumes "refuses_nil eng" and "nil_on_failed_parse eng config"
    and "snd (LoggerFromConfigAsBytes eng config) \<noteq> None"
  shows "fst (SetLoggerConfig eng config stk s) = Panicked panicMessage
       \<and> Current (snd (SetLoggerConfig eng config stk s)) = Current s
       \<and> take (length (records s)) (records (snd (SetLoggerConfig eng config stk s)))
           = records s
       \<and> map rec_level (emitted (Error v stk') (snd (SetLoggerConfig eng config stk s)))
           = [ErrorLvl]
       \<and> map rec_message (emitted (Error v stk') (snd (SetLoggerConfig eng config stk s)))
           = [Plain v]"
proof -
  from assms(3) have "snd (LoggerFromConfigAsBytes eng config) \<noteq> None
      \<or> ReplaceLoggerError eng (fst (LoggerFromConfigAsBytes eng config)) \<noteq> None"
    by simp
  with assms(1,2)
  have refused: "ReplaceLoggerError eng (fst (LoggerFromConfigAsBytes eng config)) \<noteq> None"
    by (rule failure_is_refused)
  show ?thesis
    by (simp add: SetLoggerConfig_refused_eq [OF refused] emitted_def Error_def call_def
        log_Error_def engine_log_def)
qed

text \<open>
  On the strict engine, after \<^verbatim>\<open>init\<close>, the text \<^verbatim>\<open><<<\<close> does not parse: \<^verbatim>\<open>SetLoggerConfig\<close>
  panics and the logger of the default configuration stays.
\<close>

theorem SetLoggerConfig_invalid_document_keeps_logger_witness:
  "refuses_nil engine_strict
   \<and> nil_on_failed_parse engine_strict ''<<<''
   \<and> snd (LoggerFromConfigAsBytes engine_strict ''<<<'') = Some ''not a seelog configuration''
   \<and> Current (started engine_strict) = Some defaultConfig
   \<and> fst (SetLoggerConfig engine_strict ''<<<'' [''main.main''] (started engine_strict))
       = Panicked panicMessage
   \<and> Current (snd (SetLoggerConfig engine_strict ''<<<'' [''main.main'']
        (started engine_strict))) = Some defaultConfig"
proof -
  have nil: "refuses_nil engine_strict"
    by (simp add: refuses_nil_def strict_fields)
  have parse: "nil_on_failed_parse engine_strict ''<<<''"
    by (simp add: nil_on_failed_parse_def strict_fields parse_seelog_def)
  have failed: "snd (LoggerFromConfigAsBytes engine_strict ''<<<'')
      = Some ''not a seelog configuration''"
    by (simp add: strict_fields parse_seelog_def)
  then have invalid: "snd (LoggerFromConfigAsBytes engine_strict ''<<<'') \<noteq> None"
    by simp
  show ?thesis
    using nil parse failed
      SetLoggerConfig_invalid_document_keeps_logger [OF nil parse invalid,
        of "[''main.main'']" "started engine_strict"]
    by (simp add: started_strict)
qed

text \<open>
  Without a hypothesis on the engine: whenever \<^verbatim>\<open>SetLoggerConfig\<close> does not return, it has
  panicked, \<^verbatim>\<open>ReplaceLogger\<close> has refused the logger, and the active logger is the one
  from before the call.
\<close>

lemma SetLoggerConfig_panic_keeps_logger:
  assumes "fst (SetLoggerConfig eng config stk s) \<noteq> Returned"
  shows "fst (SetLoggerConfig eng config stk s) = Panicked panicMessage
       \<and> ReplaceLoggerError eng (fst (LoggerFromConfigAsBytes eng config)) \<noteq> None
       \<and> Current (snd (SetLoggerConfig eng config stk s)) = Current s"
proof (cases "ReplaceLoggerError eng (fst (LoggerFromConfigAsBytes eng config))")
  case None
  with assms show ?thesis by (simp add: SetLoggerConfig_accepted)
next
  case (Some e)
  then show ?thesis by (simp add: SetLoggerConfig_refused Panicf_eq)
qed

text \<open>
  C10. \<^verbatim>\<open>SetLoggerConfig\<close> returns exactly when \<^verbatim>\<open>ReplaceLogger\<close> accepts the logger the
  parser returned; the error the parser returned has no influence on what it does; so for
  a text whose parsing fails and whose logger (nil or not) \<^verbatim>\<open>ReplaceLogger\<close> accepts, it
  returns with that logger installed and nothing logged.
\<close>

theorem SetLoggerConfig_drops_parse_error:
  "(fst (SetLoggerConfig eng config stk s) = Returned)
     = (ReplaceLoggerError eng (fst (LoggerFromConfigAsBytes eng config)) = None)
   \<and> SetLoggerConfig
        (eng\<lparr>LoggerFromConfigAsBytes := \<lambda>c. (fst (LoggerFromConfigAsBytes eng c), e c)\<rparr>)
        config stk s
       = SetLoggerConfig eng config stk s
   \<and> (snd (LoggerFromConfigAsBytes eng config) \<noteq> None
        \<and> ReplaceLoggerError eng (fst (LoggerFromConfigAsBytes eng config)) = None \<longrightarrow>
      SetLoggerConfig eng config stk s
        = (Returned, s\<lparr>Current := fst (LoggerFromConfigAsBytes eng config)\<rparr>))"
proof (cases "ReplaceLoggerError eng (fst (LoggerFromConfigAsBytes eng config))")
  case None
  then show ?thesis
    by (simp add: SetLoggerConfig_def log_ReplaceLogger_def Let_def)
next
  case (Some err)
  then show ?thesis
    by (simp add: SetLoggerConfig_def log_ReplaceLogger_def Let_def Panicf_eq)
qed

theorem SetLoggerConfig_drops_parse_error_witness:
  "snd (LoggerFromConfigAsBytes engine_lenient ''<<<'') \<noteq> None
   \<and> ReplaceLoggerError engine_lenient (fst (LoggerFromConfigAsBytes engine_lenient ''<<<'')) = None
   \<and> SetLoggerConfig engine_lenient ''<<<'' [''main.main''] (fresh 3 (Some ''seelog.Default''))
       = (Returned, fresh 3 None)"
proof -
  have failed: "snd (LoggerFromConfigAsBytes engine_lenient ''<<<'') \<noteq> None"
    by (simp add: lenient_fields parse_seelog_def)
  have accepted: "ReplaceLoggerError engine_lenient
      (fst (LoggerFromConfigAsBytes engine_lenient ''<<<'')) = None"
    by (simp add: lenient_fields)
  show ?thesis
    using failed accepted SetLoggerConfig_drops_parse_error
      [of engine_lenient "''<<<''" "[''main.main'']" "fresh 3 (Some ''seelog.Default'')"]
    by (simp add: lenient_fields parse_seelog_def fresh_def)
qed

section \<open>Panic, Fatal, Print and Println\<close>

text \<open>
  C6, as stated, fails for the argument list that holds the text of the panic itself: the
  record then carries the very text the signal carries, so the signal's message is not
  distinct from the logged message.
\<close>

theorem Panic_logged_text_is_carried_text_counterexample:
  "carried (fst (Panic [GString ''Panic in seelogWrapper, check last critical log for reason.!'']
       [''main.main''] (started engine_strict)))
     = Some ''Panic in seelogWrapper, check last critical log for reason.!''
   \<and> map rec_text
        (emitted (Panic [GString ''Panic in seelogWrapper, check last critical log for reason.!'']
           [''main.main'']) (started engine_strict))
     = [''Panic in seelogWrapper, check last critical log for reason.!'']"
  by (simp add: Panic_eq emitted_def rec_text_def panicMessage_def)

text \<open>
  C6, amended. For every argument list \<open>v\<close>, \<^verbatim>\<open>Panic\<close> hands exactly one record to the engine,
  at the Critical level, with the arguments \<open>v\<close> as its message and their joined text as its
  text, and then panics. The message of the panic is the one fixed text
  \<^verbatim>\<open>Panic in seelogWrapper, check last critical log for reason.!\<close> whatever \<open>v\<close> is, and it is
  the logged text exactly when the logged text is that very text.
\<close>

theorem Panic_logs_Critical_then_raises_constant:
  "fst (Panic v stk s)
     = Panicked ''Panic in seelogWrapper, check last critical log for reason.!''
   \<and> map rec_level (emitted (Panic v stk) s) = [CriticalLvl]
   \<and> map rec_message (emitted (Panic v stk) s) = [Plain v]
   \<and> map rec_text (emitted (Panic v stk) s) = [Sprint v]
   \<and> (map (\<lambda>r. Some (rec_text r)) (emitted (Panic v stk) s) = [carried (fst (Panic v stk s))])
       = (Sprint v = ''Panic in seelogWrapper, check last critical log for reason.!'')"
proof -
  have outcome: "fst (Panic v stk s)
      = Panicked ''Panic in seelogWrapper, check last critical log for reason.!''"
    by (simp add: Panic_eq panicMessage_def)
  have logged: "map rec_text (emitted (Panic v stk) s) = [Sprint v]"
    by (simp add: Panic_eq emitted_def rec_text_def)
  have same: "(map (\<lambda>r. Some (rec_text r)) (emitted (Panic v stk) s)
                 = [carried (fst (Panic v stk s))])
      = (Sprint v = ''Panic in seelogWrapper, check last critical log for reason.!'')"
    by (simp add: Panic_eq emitted_def rec_text_def panicMessage_def)
  show ?thesis
    using outcome logged same by (simp add: Panic_eq emitted_def)
qed

text \<open>\<^verbatim>\<open>Panic("x")\<close>: one Critical record with the text \<^verbatim>\<open>x\<close>, and a panic that does not carry it.\<close>

theorem Panic_logs_Critical_then_raises_constant_witness:
  "map rec_level (emitted (Panic [GString ''x''] [''main.main'']) (started engine_strict))
     = [CriticalLvl]
   \<and> map rec_text (emitted (Panic [GString ''x''] [''main.main'']) (started engine_strict))
     = [''x'']
   \<and> carried (fst (Panic [GString ''x''] [''main.main''] (started engine_strict)))
     = Some ''Panic in seelogWrapper, check last critical log for reason.!''
   \<and> carried (fst (Panic [GString ''x''] [''main.main''] (started engine_strict))) \<noteq> Some ''x''"
  using Panic_logs_Critical_then_raises_constant
    [of "[GString ''x'']" "[''main.main'']" "started engine_strict"]
  by simp

text \<open>
  C7. For every argument list \<open>v\<close>, \<^verbatim>\<open>Fatal\<close> hands exactly one record to the engine, at the
  Error level and with the arguments \<open>v\<close> as its message, and then ends the process with
  status 1. Whatever follows the call is not run: neither the statements after it
  (\<open>rest\<close>) nor a call deferred around it (\<open>d\<close>) change the result.
\<close>

theorem Fatal_logs_Error_then_exits:
  "fst (Fatal v stk s) = Exited 1
   \<and> exits_nonzero (fst (Fatal v stk s))
   \<and> map rec_level (emitted (Fatal v stk) s) = [ErrorLvl]
   \<and> map rec_message (emitted (Fatal v stk) s) = [Plain v]
   \<and> then_do (Fatal v stk) rest s = Fatal v stk s
   \<and> deferred d (Fatal v stk) s = Fatal v stk s"
  by (simp add: Fatal_eq emitted_def then_do_def deferred_def)

text \<open>
  The two joins, said without the functions that compute them. \<^verbatim>\<open>fmt.Sprintln\<close> puts a
  space before every operand but the first and a newline at the end; \<^verbatim>\<open>fmt.Sprint\<close> puts a
  space before an operand when neither it nor the operand before it is a string.
\<close>

lemma join_with_tl:
  "join_with '' '' xs = tl (concat (map (\<lambda>x. '' '' @ x) xs))"
  by (induction "'' ''" xs rule: join_with.induct) simp_all

lemma Sprintln_spaces:
  "Sprintln v = tl (concat (map (\<lambda>a. '' '' @ format_v a) v)) @ [CHR 0x0A]"
  by (simp add: Sprintln_def join_with_tl o_def)

lemma Sprint_Cons_zip:
  "Sprint (a # v) =
     format_v a
     @ concat (map (\<lambda>(p, x). (if is_string p \<or> is_string x then [] else '' '') @ format_v x)
                 (zip (a # v) v))"
  by (induction v arbitrary: a) simp_all

lemma Sprint_zip:
  "Sprint v =
     concat (map (\<lambda>(p, x). (if is_string p \<or> is_string x then [] else '' '') @ format_v x)
               (zip (GString [] # v) v))"
proof (cases v)
  case Nil
  then show ?thesis by simp
next
  case (Cons a rest)
  then show ?thesis by (simp add: Sprint_Cons_zip)
qed

lemma Sprint_strings: "Sprint (map GString xs) = concat xs"
  by (induction xs rule: induct_list012) simp_all

lemma Sprint_no_strings:
  "\<forall>a\<in>set v. \<not> is_string a \<Longrightarrow> Sprint v = join_with '' '' (map format_v v)"
  by (induction v rule: Sprint.induct) simp_all

lemma Sprint_short: "length v \<le> 1 \<Longrightarrow> Sprint v = join_with '' '' (map format_v v)"
  by (cases v rule: Sprint.cases) simp_all

text \<open>
  C8, as stated, fails: the text \<^verbatim>\<open>Println\<close> logs is not the text \<^verbatim>\<open>Print\<close> logs with a
  newline appended. For the arguments \<^verbatim>\<open>"a", "b"\<close>, \<^verbatim>\<open>Print\<close> logs \<^verbatim>\<open>ab\<close> and \<^verbatim>\<open>Println\<close> logs
  \<^verbatim>\<open>a b\<close> and a newline.
\<close>

theorem Println_is_not_Print_and_newline_counterexample:
  "map rec_text (emitted (Print [GString ''a'', GString ''b''] [''main.main''])
      (started engine_strict)) = [''ab'']
   \<and> map rec_text (emitted (Println [GString ''a'', GString ''b''] [''main.main''])
      (started engine_strict)) = [''a b'' @ [CHR 0x0A]]
   \<and> map rec_text (emitted (Println [GString ''a'', GString ''b''] [''main.main''])
      (started engine_strict))
     \<noteq> map (\<lambda>r. rec_text r @ [CHR 0x0A])
         (emitted (Print [GString ''a'', GString ''b''] [''main.main''])
            (started engine_strict))"
  by (simp add: Print_eq Println_eq emitted_def rec_text_def Sprintln_def)

text \<open>
  C8, amended. For every argument list \<open>v\<close>, \<^verbatim>\<open>Println\<close> logs one record at the Info level
  whose text is the arguments in their default formats, a space between every two of
  them, and a newline appended; \<^verbatim>\<open>Print\<close> logs one record at the Info level whose message is
  the arguments themselves and whose text is the arguments in their default formats, a
  space only between two arguments neither of which is a string, and nothing appended
  (so string arguments are concatenated). The text of \<^verbatim>\<open>Println\<close> is the text of \<^verbatim>\<open>Print\<close> with
  a newline appended when no argument is a string or there is at most one argument.
\<close>

theorem Println_spaces_and_newline_Print_engine_join:
  "map rec_level (emitted (Println v stk) s) = [InfoLvl]
   \<and> map rec_level (emitted (Print v stk) s) = [InfoLvl]
   \<and> map rec_text (emitted (Println v stk) s)
       = [tl (concat (map (\<lambda>a. '' '' @ format_v a) v)) @ [CHR 0x0A]]
   \<and> map rec_message (emitted (Print v stk) s) = [Plain v]
   \<and> map rec_text (emitted (Print v stk) s)
       = [concat (map (\<lambda>(p, x). (if is_string p \<or> is_string x then [] else '' '') @ format_v x)
                    (zip (GString [] # v) v))]
   \<and> map rec_text (emitted (Print (map GString xs) stk) s) = [concat xs]
   \<and> ((\<forall>a\<in>set v. \<not> is_string a) \<or> length v \<le> 1 \<longrightarrow>
        map rec_text (emitted (Println v stk) s)
          = map (\<lambda>r. rec_text r @ [CHR 0x0A]) (emitted (Print v stk) s))
   \<and> map rec_text (emitted (Print [GString ''n='', GInt (- 30), GInt 4, GBool True] stk) s)
       = [''n=-30 4 true'']
   \<and> map rec_text (emitted (Println [GString ''n='', GInt (- 30), GInt 4, GBool True] stk) s)
       = [''n= -30 4 true'' @ [CHR 0x0A]]"
proof -
  have ln: "map rec_text (emitted (Println v stk) s) = [Sprintln v]" for v
    by (simp add: Println_eq emitted_def rec_text_def)
  have pr: "map rec_text (emitted (Print v stk) s) = [Sprint v]" for v
    by (simp add: Print_eq emitted_def rec_text_def)
  have pr': "map (\<lambda>r. rec_text r @ [CHR 0x0A]) (emitted (Print v stk) s)
      = [Sprint v @ [CHR 0x0A]]"
    by (simp add: Print_eq emitted_def rec_text_def)
  have levels: "map rec_level (emitted (Println v stk) s) = [InfoLvl]
      \<and> map rec_level (emitted (Print v stk) s) = [InfoLvl]
      \<and> map rec_message (emitted (Print v stk) s) = [Plain v]"
    by (simp add: Println_eq Print_eq emitted_def)
  have agree: "(\<forall>a\<in>set v. \<not> is_string a) \<or> length v \<le> 1 \<longrightarrow>
      Sprintln v = Sprint v @ [CHR 0x0A]"
    using Sprint_no_strings [of v] Sprint_short [of v] by (auto simp add: Sprintln_def)
  have ex1: "Sprint [GString ''n='', GInt (- 30), GInt 4, GBool True] = ''n=-30 4 true''"
    by (simp add: Itoa_def)
  have ex2: "Sprintln [GString ''n='', GInt (- 30), GInt 4, GBool True]
      = ''n= -30 4 true'' @ [CHR 0x0A]"
    by (simp add: Sprintln_def Itoa_def)
  show ?thesis
    unfolding ln pr pr'
    using levels agree ex1 ex2 Sprintln_spaces [of v] Sprint_zip [of v] Sprint_strings [of xs]
    by simp
qed

text \<open>
  \<^verbatim>\<open>Println(7, true)\<close> and \<^verbatim>\<open>Print(7, true)\<close> hold no string: their texts differ by the newline.
\<close>

theorem Println_spaces_and_newline_Print_engine_join_witness:
  "((\<forall>a\<in>set [GInt 7, GBool True]. \<not> is_string a) \<or> length [GInt 7, GBool True] \<le> 1)
   \<and> map rec_text (emitted (Println [GInt 7, GBool True] [''main.main'']) (started engine_strict))
       = [''7 true'' @ [CHR 0x0A]]
   \<and> map rec_text (emitted (Print [GInt 7, GBool True] [''main.main'']) (started engine_strict))
       = [''7 true'']
   \<and> map rec_text (emitted (Print [GString ''a'', GString ''b''] [''main.main''])
        (started engine_strict)) = [''ab'']"
proof -
  have hyp: "(\<forall>a\<in>set [GInt 7, GBool True]. \<not> is_string a) \<or> length [GInt 7, GBool True] \<le> 1"
    by simp
  show ?thesis
    using hyp
      Println_spaces_and_newline_Print_engine_join
        [of "[GInt 7, GBool True]" "[''main.main'']" "started engine_strict" "[''a'', ''b'']"]
    by (simp add: Itoa_def)
qed

section \<open>Initialization\<close>



end
